theory Spec2Isabelle
  imports Complex_Main "HOL-Library.AList" "HOL-Library.Multiset" "HOL-Library.Sublist"
begin

section \<open>Tech Hub intern management: the data model\<close>

text \<open>
  The program is \<^verbatim>\<open>src/main-task.py\<close>: a class \<^verbatim>\<open>Attachee\<close> (one intern, with
  tasks, feedback, scores and an average score) and a class \<^verbatim>\<open>TechHub\<close> (the four
  divisions and the list of attachees).

  \<^item> A Python \<^verbatim>\<open>dict\<close> is an association list in insertion order. \<^verbatim>\<open>d[k] = v\<close> is
    \<^const>\<open>AList.update\<close>: it replaces the value in place when the key is there and appends
    the pair otherwise. \<^verbatim>\<open>d[k]\<close> is \<^const>\<open>map_of\<close>, \<^verbatim>\<open>d.values()\<close> is \<open>map snd\<close>.
  \<^item> A Python number (an \<^verbatim>\<open>int\<close> or a finite \<^verbatim>\<open>float\<close>) is a rational. Arithmetic
    is exact: the rounding of binary floating point in \<^verbatim>\<open>sum(...) / len(...)\<close> is not
    modelled.
  \<^item> A method that assigns to an attribute takes the object first and returns its return
    value paired with the object after the call; a method that only reads returns its
    value alone.
  \<^item> The text of a number inside an f-string (\<^verbatim>\<open>{score}\<close>, \<^verbatim>\<open>{x:.1f}\<close>) and
    \<^verbatim>\<open>str.lower\<close> are Python built-ins; the functions that use them take them as
    arguments (\<open>str_num\<close>, \<open>fmt_1f\<close>, \<open>lower\<close>).
\<close>

type_synonym ('k, 'v) dict = "('k \<times> 'v) list"

record Attachee =
  name :: string
  division :: string
  tasks :: "string list"
  feedback :: "(string, string) dict"
  scores :: "(string, rat) dict"
  average_score :: rat

record TechHub =
  divisions :: "string list"
  attachees :: "Attachee list"

datatype error = KeyError string

definition apostrophe :: char where
  "apostrophe = CHR 0x27"

definition newline :: char where
  "newline = CHR 0x0A"

section \<open>Attachee\<close>

definition Attachee_init :: "string \<Rightarrow> string \<Rightarrow> Attachee" where
  "Attachee_init n d =
     \<lparr>name = n, division = d, tasks = [], feedback = [], scores = [], average_score = 0\<rparr>"

definition assign_task :: "Attachee \<Rightarrow> string \<Rightarrow> string \<times> Attachee" where
  "assign_task self task =
     (''Task '' @ [apostrophe] @ task @ [apostrophe] @ '' assigned to '' @ name self
        @ '' in '' @ division self @ '' division.'',
      self\<lparr>tasks := tasks self @ [task],
           feedback := AList.update task [] (feedback self),
           scores := AList.update task 0 (scores self)\<rparr>)"

definition add_feedback :: "Attachee \<Rightarrow> string \<Rightarrow> string \<Rightarrow> string \<times> Attachee" where
  "add_feedback self task fb =
     (if task \<in> set (tasks self) then
        (''Feedback added for '' @ name self @ [apostrophe] @ ''s task: '' @ [apostrophe]
           @ task @ [apostrophe],
         self\<lparr>feedback := AList.update task fb (feedback self)\<rparr>)
      else
        (''Error: Task '' @ [apostrophe] @ task @ [apostrophe] @ '' not assigned to ''
           @ name self @ ''.'',
         self))"

definition update_average_score :: "Attachee \<Rightarrow> Attachee" where
  "update_average_score self =
     (if scores self \<noteq> [] then
        self\<lparr>average_score :=
          sum_list (map snd (scores self)) / of_nat (length (scores self))\<rparr>
      else self\<lparr>average_score := 0\<rparr>)"

definition add_score ::
  "(rat \<Rightarrow> string) \<Rightarrow> Attachee \<Rightarrow> string \<Rightarrow> rat \<Rightarrow> string \<times> Attachee" where
  "add_score str_num self task score =
     (if task \<in> set (tasks self) then
        if 0 \<le> score \<and> score \<le> 10 then
          (''Score of '' @ str_num score @ ''/10 added for '' @ name self @ [apostrophe]
             @ ''s task: '' @ [apostrophe] @ task @ [apostrophe],
           update_average_score (self\<lparr>scores := AList.update task score (scores self)\<rparr>))
        else
          (''Error: Score must be between 0 and 10.'', self)
      else
        (''Error: Task '' @ [apostrophe] @ task @ [apostrophe] @ '' not assigned to ''
           @ name self @ ''.'',
         self))"

text \<open>
  The loop of \<^verbatim>\<open>get_performance_summary\<close> over \<^verbatim>\<open>self.tasks\<close>. \<^verbatim>\<open>self.scores[task]\<close>
  and \<^verbatim>\<open>self.feedback[task]\<close> raise \<^verbatim>\<open>KeyError\<close> on a missing key.
\<close>

fun summary_tasks ::
  "(rat \<Rightarrow> string) \<Rightarrow> Attachee \<Rightarrow> string list \<Rightarrow> string \<Rightarrow> error + string" where
  "summary_tasks str_num self [] summary = Inr summary"
| "summary_tasks str_num self (task # rest) summary =
     (case map_of (scores self) task of
        None \<Rightarrow> Inl (KeyError task)
      | Some sc \<Rightarrow>
          (case map_of (feedback self) task of
             None \<Rightarrow> Inl (KeyError task)
           | Some fb \<Rightarrow>
               summary_tasks str_num self rest
                 (summary @ ''  - '' @ task @ [newline]
                    @ ''    Score: '' @ str_num sc @ ''/10'' @ [newline]
                    @ ''    Feedback: '' @ (if fb \<noteq> [] then fb else ''No feedback yet'')
                    @ [newline])))"

definition get_performance_summary ::
  "(rat \<Rightarrow> string) \<Rightarrow> (rat \<Rightarrow> string) \<Rightarrow> Attachee \<Rightarrow> error + string" where
  "get_performance_summary str_num fmt_1f self =
     (let summary = [newline] @ ''--- '' @ name self @ [apostrophe]
            @ ''s Performance Summary ('' @ division self @ '' Division) ---'' @ [newline]
      in if tasks self = [] then Inr (summary @ ''No tasks assigned yet.'' @ [newline])
         else summary_tasks str_num self (tasks self)
                (summary @ ''Average Score: '' @ fmt_1f (average_score self) @ ''/10''
                   @ [newline] @ ''Tasks:'' @ [newline]))"

section \<open>TechHub\<close>

definition TechHub_init :: TechHub where
  "TechHub_init =
     \<lparr>divisions = [''Engineering'', ''Tech Programs'', ''Radio Support'', ''Hub Support''],
      attachees = []\<rparr>"

definition add_attachee :: "TechHub \<Rightarrow> string \<Rightarrow> string \<Rightarrow> string \<times> TechHub" where
  "add_attachee self n d =
     (if d \<in> set (divisions self) then
        (n @ '' added to '' @ d @ '' division.'',
         self\<lparr>attachees := attachees self @ [Attachee_init n d]\<rparr>)
      else
        (''Error: '' @ d @ '' is not a valid division.'', self))"

text \<open>The loop of \<^verbatim>\<open>get_attachee\<close>: the first attachee whose lowered name matches.\<close>

fun get_attachee_loop ::
  "(string \<Rightarrow> string) \<Rightarrow> Attachee list \<Rightarrow> string \<Rightarrow> Attachee option" where
  "get_attachee_loop lower [] n = None"
| "get_attachee_loop lower (a # rest) n =
     (if lower (name a) = lower n then Some a else get_attachee_loop lower rest n)"

definition get_attachee :: "(string \<Rightarrow> string) \<Rightarrow> TechHub \<Rightarrow> string \<Rightarrow> Attachee option" where
  "get_attachee lower self n = get_attachee_loop lower (attachees self) n"

definition get_attachees_by_division :: "TechHub \<Rightarrow> string \<Rightarrow> Attachee list" where
  "get_attachees_by_division self d =
     (if d \<in> set (divisions self) then [a \<leftarrow> attachees self. division a = d] else [])"

text \<open>
  \<^verbatim>\<open>assign_task_by_division\<close> calls \<^verbatim>\<open>assign_task\<close> on each object of the list that
  \<^verbatim>\<open>get_attachees_by_division\<close> returned. That list holds references to the objects of
  \<^verbatim>\<open>self.attachees\<close> whose division is \<open>d\<close>, each of them exactly once (every object of
  \<^verbatim>\<open>self.attachees\<close> was created by its own call of \<^verbatim>\<open>add_attachee\<close>), so the loop
  updates exactly those positions of \<^verbatim>\<open>self.attachees\<close>, from left to right.
\<close>

fun assign_task_loop :: "string \<Rightarrow> string \<Rightarrow> Attachee list \<Rightarrow> Attachee list" where
  "assign_task_loop d task [] = []"
| "assign_task_loop d task (a # rest) =
     (if division a = d then snd (assign_task a task) else a) # assign_task_loop d task rest"

definition assign_task_by_division :: "TechHub \<Rightarrow> string \<Rightarrow> string \<Rightarrow> string \<times> TechHub" where
  "assign_task_by_division self d task =
     (if d \<in> set (divisions self) then
        if get_attachees_by_division self d \<noteq> [] then
          (''Task '' @ [apostrophe] @ task @ [apostrophe] @ '' assigned to all attachees in ''
             @ d @ '' division.'',
           self\<lparr>attachees := assign_task_loop d task (attachees self)\<rparr>)
        else
          (''No attachees found in '' @ d @ '' division.'', self)
      else
        (''Error: '' @ d @ '' is not a valid division.'', self))"

text \<open>The loop of \<^verbatim>\<open>display_division_performance\<close>; a \<^verbatim>\<open>KeyError\<close> of a summary ends it.\<close>

fun performance_loop ::
  "(rat \<Rightarrow> string) \<Rightarrow> (rat \<Rightarrow> string) \<Rightarrow> Attachee list \<Rightarrow> string \<Rightarrow> error + string" where
  "performance_loop str_num fmt_1f [] result = Inr result"
| "performance_loop str_num fmt_1f (a # rest) result =
     (case get_performance_summary str_num fmt_1f a of
        Inl e \<Rightarrow> Inl e
      | Inr s \<Rightarrow> performance_loop str_num fmt_1f rest (result @ s))"

definition display_division_performance ::
  "(rat \<Rightarrow> string) \<Rightarrow> (rat \<Rightarrow> string) \<Rightarrow> TechHub \<Rightarrow> string \<Rightarrow> error + string" where
  "display_division_performance str_num fmt_1f self d =
     (if d \<in> set (divisions self) then
        if get_attachees_by_division self d \<noteq> [] then
          performance_loop str_num fmt_1f (get_attachees_by_division self d)
            ([newline] @ ''=== '' @ d @ '' Division Performance ==='' @ [newline])
        else Inr (''No attachees found in '' @ d @ '' division.'')
      else Inr (''Error: '' @ d @ '' is not a valid division.''))"

section \<open>Sequences of calls on one attachee\<close>

text \<open>
  The calls a caller can make on an \<^verbatim>\<open>Attachee\<close>, and the record after a sequence of
  them. \<^verbatim>\<open>get_performance_summary\<close> assigns to no attribute.
\<close>

datatype attachee_op =
    AssignTask string
  | AddFeedback string string
  | AddScore string rat
  | GetPerformanceSummary

fun apply_op :: "(rat \<Rightarrow> string) \<Rightarrow> Attachee \<Rightarrow> attachee_op \<Rightarrow> Attachee" where
  "apply_op str_num self (AssignTask t) = snd (assign_task self t)"
| "apply_op str_num self (AddFeedback t fb) = snd (add_feedback self t fb)"
| "apply_op str_num self (AddScore t s) = snd (add_score str_num self t s)"
| "apply_op str_num self GetPerformanceSummary = self"

definition run_ops :: "(rat \<Rightarrow> string) \<Rightarrow> Attachee \<Rightarrow> attachee_op list \<Rightarrow> Attachee" where
  "run_ops str_num self ops = foldl (apply_op str_num) self ops"

definition score_op :: "string \<times> rat \<Rightarrow> attachee_op" where
  "score_op p = AddScore (fst p) (snd p)"

text \<open>The invariant of the data model: every task of the list is a key of both dicts.\<close>

definition tasks_have_entries :: "Attachee \<Rightarrow> bool" where
  "tasks_have_entries self =
     (\<forall>t \<in> set (tasks self). t \<in> fst ` set (feedback self) \<and> t \<in> fst ` set (scores self))"

section \<open>Instances of the built-ins and example states\<close>

text \<open>
  \<open>str_int\<close> is Python's \<^verbatim>\<open>str\<close> on a number that is an \<^verbatim>\<open>int\<close>, and \<open>ascii_lower\<close>
  is \<^verbatim>\<open>str.lower\<close> on ASCII text. They instantiate \<open>str_num\<close> and \<open>lower\<close> in the
  examples below; the theorems hold for every choice of the two.
\<close>

function str_nat :: "nat \<Rightarrow> string" where
  "str_nat n =
     (if n < 10 then [''0123456789'' ! n]
      else str_nat (n div 10) @ [''0123456789'' ! (n mod 10)])"
  by pat_completeness auto
termination
  by (relation "measure id") auto

definition str_int :: "rat \<Rightarrow> string" where
  "str_int q = (if q < 0 then ''-'' @ str_nat (nat (- \<lfloor>q\<rfloor>)) else str_nat (nat \<lfloor>q\<rfloor>))"

definition lower_char :: "char \<Rightarrow> char" where
  "lower_char c =
     (let n = of_char c :: nat in if 65 \<le> n \<and> n \<le> 90 then char_of (n + 32) else c)"

definition ascii_lower :: "string \<Rightarrow> string" where
  "ascii_lower s = map lower_char s"

text \<open>John Smith of Engineering with the one task "Fix bug", not yet scored.\<close>

definition john :: Attachee where
  "john = snd (assign_task (Attachee_init ''John Smith'' ''Engineering'') ''Fix bug'')"

text \<open>
  A hub with the one attachee John of Engineering, who has the task "Fix bug"; and a hub
  with two attachees of Engineering and one of Tech Programs, none with a task.
\<close>

definition hub_john :: TechHub where
  "hub_john =
     snd (assign_task_by_division (snd (add_attachee TechHub_init ''John'' ''Engineering''))
            ''Engineering'' ''Fix bug'')"

definition hub_three :: TechHub where
  "hub_three =
     snd (add_attachee
       (snd (add_attachee
          (snd (add_attachee TechHub_init ''John Smith'' ''Engineering''))
          ''David Kim'' ''Tech Programs''))
       ''Maria Garcia'' ''Engineering'')"

text \<open>The three tasks John Smith has in the demonstration run.\<close>

definition demo_tasks :: "string list" where
  "demo_tasks =
     [''Create a new web dashboard'', ''Fix login authentication bug'', ''Complete code review'']"

section \<open>Properties of Attachee\<close>

lemma snd_assign_task [simp]:
  "snd (assign_task r t) =
     r\<lparr>tasks := tasks r @ [t], feedback := AList.update t [] (feedback r),
       scores := AList.update t 0 (scores r)\<rparr>"
  by (simp add: assign_task_def)

text \<open>
  Claim C10. \<^verbatim>\<open>assign_task(t)\<close> leaves \<^verbatim>\<open>average_score\<close> (and the name and division)
  as it was: it appends \<open>t\<close> to the tasks and sets \<^verbatim>\<open>feedback[t] = ""\<close> and
  \<^verbatim>\<open>scores[t] = 0\<close>, the other keys keeping their values, and it does not recompute
  the average. In particular, for John Smith with "Fix bug" scored 8 (average 8),
  assigning "Fix bug" again resets its score to 0 while the average stays 8, although
  recomputing it from the scores would give 0.
\<close>

theorem assign_task_keeps_average_score:
  "average_score (snd (assign_task r t)) = average_score r \<and>
   tasks (snd (assign_task r t)) = tasks r @ [t] \<and>
   map_of (feedback (snd (assign_task r t))) = (map_of (feedback r))(t \<mapsto> []) \<and>
   map_of (scores (snd (assign_task r t))) = (map_of (scores r))(t \<mapsto> 0) \<and>
   name (snd (assign_task r t)) = name r \<and>
   division (snd (assign_task r t)) = division r \<and>
   map_of (scores (snd (add_score str_int john ''Fix bug'' 8))) ''Fix bug'' = Some 8 \<and>
   average_score (snd (add_score str_int john ''Fix bug'' 8)) = 8 \<and>
   map_of (scores (snd (assign_task (snd (add_score str_int john ''Fix bug'' 8)) ''Fix bug'')))
     ''Fix bug'' = Some 0 \<and>
   average_score (snd (assign_task (snd (add_score str_int john ''Fix bug'' 8)) ''Fix bug'')) = 8 \<and>
   average_score (update_average_score
     (snd (assign_task (snd (add_score str_int john ''Fix bug'' 8)) ''Fix bug''))) = 0"
  by (simp add: update_conv' add_score_def john_def Attachee_init_def update_average_score_def)

text \<open>
  Claim C2. For a task \<open>t\<close> in the tasks list, \<^verbatim>\<open>add_score(t, s)\<close> succeeds exactly when
  \<open>0 \<le> s \<le> 10\<close>: then it returns the confirmation, stores \<open>s\<close> under \<open>t\<close> and recomputes
  the average; otherwise it returns the error message "Error: Score must be between 0
  and 10." and the record is unchanged in every field.
\<close>

theorem add_score_range:
  assumes "t \<in> set (tasks r)"
  shows "(0 \<le> s \<and> s \<le> 10 \<longrightarrow>
           add_score sn r t s =
             (''Score of '' @ sn s @ ''/10 added for '' @ name r @ [apostrophe] @ ''s task: ''
                @ [apostrophe] @ t @ [apostrophe],
              update_average_score (r\<lparr>scores := AList.update t s (scores r)\<rparr>)) \<and>
           map_of (scores (snd (add_score sn r t s))) t = Some s) \<and>
         (\<not> (0 \<le> s \<and> s \<le> 10) \<longrightarrow>
           add_score sn r t s = (''Error: Score must be between 0 and 10.'', r)) \<and>
         (fst (add_score sn r t s) = ''Error: Score must be between 0 and 10.''
            \<longleftrightarrow> \<not> (0 \<le> s \<and> s \<le> 10))"
  using assms by (simp add: add_score_def update_average_score_def update_conv')

theorem add_score_range_witness:
  "''Fix bug'' \<in> set (tasks john) \<and>
   add_score str_int john ''Fix bug'' 8 =
     (''Score of 8/10 added for John Smith'' @ [apostrophe] @ ''s task: '' @ [apostrophe]
        @ ''Fix bug'' @ [apostrophe],
      john\<lparr>scores := [(''Fix bug'', 8)], average_score := 8\<rparr>) \<and>
   add_score str_int (snd (add_score str_int john ''Fix bug'' 8)) ''Fix bug'' 12 =
     (''Error: Score must be between 0 and 10.'',
      john\<lparr>scores := [(''Fix bug'', 8)], average_score := 8\<rparr>)"
proof -
  have t: "''Fix bug'' \<in> set (tasks john)"
    by (simp add: john_def)
  have s: "str_int 8 = ''8''"
    by (simp add: str_int_def)
  have r: "update_average_score (john\<lparr>scores := AList.update ''Fix bug'' 8 (scores john)\<rparr>)
             = john\<lparr>scores := [(''Fix bug'', 8)], average_score := 8\<rparr>"
    by (simp add: john_def update_average_score_def Attachee_init_def)
  have t': "''Fix bug'' \<in> set (tasks (john\<lparr>scores := [(''Fix bug'', 8)], average_score := 8\<rparr>))"
    by (simp add: john_def)
  have n: "name john = ''John Smith''"
    by (simp add: john_def Attachee_init_def)
  show ?thesis
    using t add_score_range [OF t, of 8 str_int] add_score_range [OF t', of 12 str_int]
    by (simp add: s r n)
qed

lemma run_ops_Nil [simp]: "run_ops sn r [] = r"
  by (simp add: run_ops_def)

lemma run_ops_snoc [simp]: "run_ops sn r (ops @ [x]) = apply_op sn (run_ops sn r ops) x"
  by (simp add: run_ops_def)

lemma run_ops_append: "run_ops sn r (xs @ ys) = run_ops sn (run_ops sn r xs) ys"
  by (simp add: run_ops_def)

lemma tasks_have_entries_init: "tasks_have_entries (Attachee_init n d)"
  by (simp add: tasks_have_entries_def Attachee_init_def)

lemma tasks_have_entries_assign_task:
  "tasks_have_entries r \<Longrightarrow> tasks_have_entries (snd (assign_task r t))"
  by (auto simp: tasks_have_entries_def dom_update)

lemma tasks_have_entries_add_feedback:
  "tasks_have_entries r \<Longrightarrow> tasks_have_entries (snd (add_feedback r t fb))"
  by (auto simp: tasks_have_entries_def add_feedback_def dom_update)

lemma tasks_have_entries_add_score:
  "tasks_have_entries r \<Longrightarrow> tasks_have_entries (snd (add_score sn r t s))"
  by (auto simp: tasks_have_entries_def add_score_def update_average_score_def dom_update)

lemma tasks_have_entries_apply_op:
  "tasks_have_entries r \<Longrightarrow> tasks_have_entries (apply_op sn r x)"
  by (cases x)
    (simp_all add: tasks_have_entries_assign_task tasks_have_entries_add_feedback
       tasks_have_entries_add_score del: snd_assign_task)

lemma tasks_have_entries_run_ops:
  "tasks_have_entries r \<Longrightarrow> tasks_have_entries (run_ops sn r ops)"
  by (induction ops rule: rev_induct) (simp_all add: tasks_have_entries_apply_op)

text \<open>
  Claim C3. In every record reached from a new \<^verbatim>\<open>Attachee\<close> by any sequence of
  \<^verbatim>\<open>assign_task\<close>, \<^verbatim>\<open>add_feedback\<close>, \<^verbatim>\<open>add_score\<close> and \<^verbatim>\<open>get_performance_summary\<close>
  calls, every task of the tasks list is a key of both \<^verbatim>\<open>feedback\<close> and \<^verbatim>\<open>scores\<close>.
  \<^verbatim>\<open>assign_task(t)\<close> puts \<open>t\<close> into both dicts, and each of the four operations keeps
  the invariant.
\<close>

theorem tasks_have_entries_invariant:
  "tasks_have_entries (run_ops sn (Attachee_init n d) ops) \<and>
   t \<in> fst ` set (feedback (snd (assign_task r t))) \<and>
   t \<in> fst ` set (scores (snd (assign_task r t))) \<and>
   (tasks_have_entries r \<longrightarrow>
      tasks_have_entries (snd (assign_task r t)) \<and>
      tasks_have_entries (snd (add_feedback r t fb)) \<and>
      tasks_have_entries (snd (add_score sn r t s)) \<and>
      tasks_have_entries (apply_op sn r GetPerformanceSummary))"
  using tasks_have_entries_run_ops [OF tasks_have_entries_init, of sn n d ops]
    tasks_have_entries_assign_task [of r t] tasks_have_entries_add_feedback [of r t fb]
    tasks_have_entries_add_score [of r sn t s]
  by (simp add: dom_update del: snd_assign_task) (simp add: dom_update)

theorem tasks_have_entries_invariant_witness:
  "tasks_have_entries john \<and>
   tasks_have_entries
     (run_ops str_int (Attachee_init ''John Smith'' ''Engineering'')
        [AssignTask ''Fix bug'', AddFeedback ''Fix bug'' ''Good'', AddScore ''Fix bug'' 8,
         GetPerformanceSummary, AssignTask ''Fix bug'']) \<and>
   tasks_have_entries (snd (assign_task john ''Write docs'')) \<and>
   tasks_have_entries (snd (add_feedback john ''Fix bug'' ''Good'')) \<and>
   tasks_have_entries (snd (add_score str_int john ''Fix bug'' 8))"
proof -
  have j: "tasks_have_entries john"
    by (simp add: tasks_have_entries_def john_def Attachee_init_def)
  show ?thesis
    using j tasks_have_entries_invariant [of str_int "''John Smith''" "''Engineering''"
        "[AssignTask ''Fix bug'', AddFeedback ''Fix bug'' ''Good'', AddScore ''Fix bug'' 8,
          GetPerformanceSummary, AssignTask ''Fix bug'']" "''Write docs''" john]
      tasks_have_entries_invariant [of str_int "''John Smith''" "''Engineering''" "[]"
        "''Fix bug''" john "''Good''" 8]
    by simp
qed

text \<open>
  Under the invariant no lookup of \<^verbatim>\<open>get_performance_summary\<close> raises \<^verbatim>\<open>KeyError\<close>.
\<close>

lemma summary_tasks_no_KeyError:
  "set ts \<subseteq> fst ` set (feedback r) \<Longrightarrow> set ts \<subseteq> fst ` set (scores r) \<Longrightarrow>
   \<exists>s. summary_tasks sn r ts acc = Inr s"
proof (induction ts arbitrary: acc)
  case Nil
  then show ?case by simp
next
  case (Cons t ts)
  from Cons.prems obtain sc fb where "map_of (scores r) t = Some sc" "map_of (feedback r) t = Some fb"
    by (metis (no_types, lifting) domD dom_map_of_conv_image_fst list.set_intros(1) subsetD)
  with Cons show ?case by simp
qed

lemma get_performance_summary_no_KeyError:
  "tasks_have_entries r \<Longrightarrow> \<exists>s. get_performance_summary sn f1 r = Inr s"
  unfolding get_performance_summary_def Let_def
  by (auto simp: tasks_have_entries_def intro!: summary_tasks_no_KeyError)


subsection \<open>The average after assigning and scoring\<close>

lemma apply_score_op:
  assumes "fst p \<in> set (tasks r)" "0 \<le> snd p" "snd p \<le> 10"
  shows "tasks (apply_op sn r (score_op p)) = tasks r"
    and "scores (apply_op sn r (score_op p)) = AList.update (fst p) (snd p) (scores r)"
    and "average_score (apply_op sn r (score_op p)) =
           sum_list (map snd (scores (apply_op sn r (score_op p))))
             / of_nat (length (scores (apply_op sn r (score_op p))))"
  using assms by (simp_all add: score_op_def add_score_def update_average_score_def)

lemma run_assign_tasks:
  "tasks (run_ops sn r (map AssignTask ts)) = tasks r @ ts \<and>
   fst ` set (scores (run_ops sn r (map AssignTask ts))) = fst ` set (scores r) \<union> set ts \<and>
   (distinct (map fst (scores r)) \<longrightarrow>
      distinct (map fst (scores (run_ops sn r (map AssignTask ts)))))"
  by (induction ts rule: rev_induct) (auto simp: dom_update distinct_update)

lemma run_score_ops:
  assumes "fst ` set ps \<subseteq> set (tasks r)" "\<forall>p \<in> set ps. 0 \<le> snd p \<and> snd p \<le> 10"
  shows "tasks (run_ops sn r (map score_op ps)) = tasks r \<and>
         map_of (scores (run_ops sn r (map score_op ps))) = map_of (scores r) ++ map_of (rev ps) \<and>
         (distinct (map fst (scores r)) \<longrightarrow>
            distinct (map fst (scores (run_ops sn r (map score_op ps))))) \<and>
         (ps \<noteq> [] \<longrightarrow>
            average_score (run_ops sn r (map score_op ps)) =
              sum_list (map snd (scores (run_ops sn r (map score_op ps))))
                / of_nat (length (scores (run_ops sn r (map score_op ps)))))"
  using assms
proof (induction ps rule: rev_induct)
  case Nil
  then show ?case by simp
next
  case (snoc p ps)
  let ?r = "run_ops sn r (map score_op ps)"
  from snoc have IH: "tasks ?r = tasks r"
    "map_of (scores ?r) = map_of (scores r) ++ map_of (rev ps)"
    "distinct (map fst (scores r)) \<longrightarrow> distinct (map fst (scores ?r))"
    by simp_all
  from snoc.prems IH(1) have p: "fst p \<in> set (tasks ?r)" "0 \<le> snd p" "snd p \<le> 10"
    by auto
  note step = apply_score_op [OF p, of sn]
  show ?case
    using IH step by (cases p) (auto simp: update_conv' distinct_update map_add_def fun_eq_iff)
qed

lemma values_of_equal_dicts:
  fixes S :: "('k \<times> rat) list"
  assumes "distinct (map fst S)" "distinct (map fst ps)" "map_of S = map_of ps"
  shows "sum_list (map snd S) = sum_list (map snd ps)" and "length S = length ps"
proof -
  have e: "set S = set ps"
    using assms map_of_inject_set by blast
  have dS: "distinct S" and dp: "distinct ps"
    using assms(1,2) by (simp_all add: distinct_map)
  show "sum_list (map snd S) = sum_list (map snd ps)"
    by (simp add: sum_list_distinct_conv_sum_set dS dp e)
  show "length S = length ps"
    using distinct_card [OF dS] distinct_card [OF dp] e by simp
qed

lemma perm_zip_facts:
  fixes ss :: "rat list"
  assumes "mset ps = mset (zip ts ss)" "length ss = length ts"
  shows "mset (map fst ps) = mset ts" and "sum_list (map snd ps) = sum_list ss"
    and "length ps = length ts" and "set (map snd ps) = set ss"
proof -
  have "mset (map fst ps) = mset (map fst (zip ts ss))"
    using assms(1) by (metis mset_map)
  then show "mset (map fst ps) = mset ts"
    using assms(2) by simp
  have m: "mset (map snd ps) = mset (map snd (zip ts ss))"
    using assms(1) by (metis mset_map)
  then have "sum_list (map snd ps) = sum_list (map snd (zip ts ss))"
    by (metis sum_mset_sum_list)
  then show "sum_list (map snd ps) = sum_list ss"
    using assms(2) by simp
  show "length ps = length ts"
    using assms by (metis length_zip min.idem size_mset)
  show "set (map snd ps) = set ss"
    using m assms(2) by (metis map_snd_zip set_mset_mset)
qed

text \<open>
  Claim C1, as the code has it. Take a record whose \<^verbatim>\<open>scores\<close> dict has no key outside
  \<open>t1..tk\<close> (a new record has none at all), with \<open>k \<ge> 1\<close> and the names distinct. After
  \<^verbatim>\<open>assign_task\<close> on \<open>t1..tk\<close> and then one \<^verbatim>\<open>add_score\<close> per task, in any order, with
  values \<open>s1..sk\<close> in \<open>[0, 10]\<close>, the average score is \<open>(s1 + ... + sk) / k\<close>. The mean
  is exact in the model, where numbers are rationals.
\<close>

theorem average_score_is_mean:
  fixes ss :: "rat list"
  assumes "distinct (map fst (scores r))" and "fst ` set (scores r) \<subseteq> set ts"
    and "distinct ts" and "ts \<noteq> []" and "length ss = length ts"
    and "\<forall>s \<in> set ss. 0 \<le> s \<and> s \<le> 10"
    and "mset ps = mset (zip ts ss)"
  shows "average_score (run_ops sn r (map AssignTask ts @ map score_op ps))
           = sum_list ss / of_nat (length ts)"
proof -
  let ?r1 = "run_ops sn r (map AssignTask ts)"
  let ?r2 = "run_ops sn ?r1 (map score_op ps)"
  note pz = perm_zip_facts [OF assms(7) assms(5)]
  have keys: "fst ` set ps = set ts"
    using pz(1) by (metis mset_eq_setD set_map)
  have dps: "distinct (map fst ps)"
    using pz(1) assms(3) by (metis mset_eq_imp_distinct_iff)
  have ne: "ps \<noteq> []"
    using pz(3) assms(4) by auto
  have r1: "tasks ?r1 = tasks r @ ts" "fst ` set (scores ?r1) = set ts"
    "distinct (map fst (scores ?r1))"
    using run_assign_tasks [of sn r ts] assms(1,2) by auto
  have in_tasks: "fst ` set ps \<subseteq> set (tasks ?r1)"
    using keys r1(1) by simp
  have in_range: "\<forall>p \<in> set ps. 0 \<le> snd p \<and> snd p \<le> 10"
    using pz(4) assms(6) by auto
  note r2 = run_score_ops [OF in_tasks in_range, of sn]
  have "map_of (rev ps) = map_of ps"
    using dps by (simp add: map_of_inject_set distinct_map rev_map [symmetric])
  moreover have "dom (map_of (scores ?r1)) \<subseteq> dom (map_of ps)"
    using r1(2) keys by (simp add: dom_map_of_conv_image_fst)
  ultimately have m: "map_of (scores ?r2) = map_of ps"
    using r2 by (auto simp: map_add_def fun_eq_iff split: option.splits)
  have d2: "distinct (map fst (scores ?r2))"
    using r2 r1(3) by simp
  note v = values_of_equal_dicts [OF d2 dps m]
  have "average_score ?r2 = sum_list (map snd (scores ?r2)) / of_nat (length (scores ?r2))"
    using r2 ne by simp
  also have "\<dots> = sum_list ss / of_nat (length ts)"
    by (simp add: v pz)
  finally show ?thesis
    by (simp add: run_ops_append)
qed


theorem average_score_is_mean_witness:
  "average_score
     (run_ops str_int (Attachee_init ''John Smith'' ''Engineering'')
        (map AssignTask demo_tasks @
         map score_op [(''Complete code review'', 7), (''Create a new web dashboard'', 9),
                       (''Fix login authentication bug'', 8)]))
     = sum_list [9, 8, 7] / of_nat (length demo_tasks)"
proof -
  have "mset [(''Complete code review'', 7::rat), (''Create a new web dashboard'', 9),
           (''Fix login authentication bug'', 8)] = mset (zip demo_tasks [9, 8, 7])"
    by (simp add: demo_tasks_def)
  then show ?thesis
    by (intro average_score_is_mean) (simp_all add: Attachee_init_def demo_tasks_def)
qed

text \<open>
  The claim fails for a record that already has a task: the average is taken over every
  key of \<^verbatim>\<open>scores\<close>. John Smith has "Fix bug" with its initial score 0; after assigning
  "Write docs" and scoring it 10 the average is 5, not 10.
\<close>

theorem average_score_is_mean_counterexample:
  "distinct [''Write docs''] \<and> (0::rat) \<le> 10 \<and> (10::rat) \<le> 10 \<and>
   tasks john = [''Fix bug''] \<and> scores john = [(''Fix bug'', 0)] \<and>
   average_score
     (snd (add_score str_int (snd (assign_task john ''Write docs'')) ''Write docs'' 10)) = 5 \<and>
   average_score
     (snd (add_score str_int (snd (assign_task john ''Write docs'')) ''Write docs'' 10))
     \<noteq> sum_list [10] / of_nat (length [''Write docs''])"
  by (simp add: john_def Attachee_init_def add_score_def update_average_score_def)

section \<open>Properties of TechHub\<close>

text \<open>
  No operation assigns to \<^verbatim>\<open>self.divisions\<close>: a hub made by the constructor has the four
  divisions throughout. The theorems on a hub take that as their hypothesis.
\<close>

lemma get_attachee_loop_find:
  "get_attachee_loop lower xs n = find (\<lambda>a. lower (name a) = lower n) xs"
  by (induction xs) simp_all

lemma assign_task_loop_map:
  "assign_task_loop d t xs = map (\<lambda>a. if division a = d then snd (assign_task a t) else a) xs"
  by (induction xs) simp_all

lemma division_assign_task [simp]: "division (snd (assign_task a t)) = division a"
  by simp

lemma filter_assign_task_loop:
  "[a \<leftarrow> assign_task_loop d t xs. division a = d]
     = map (\<lambda>a. snd (assign_task a t)) [a \<leftarrow> xs. division a = d]"
  by (induction xs) simp_all

lemma filter_other_assign_task_loop:
  "[a \<leftarrow> assign_task_loop d t xs. division a \<noteq> d] = [a \<leftarrow> xs. division a \<noteq> d]"
  by (induction xs) simp_all

lemma divisions_fixed:
  "divisions (snd (add_attachee h n d)) = divisions h"
  "divisions (snd (assign_task_by_division h d t)) = divisions h"
  by (simp_all add: add_attachee_def assign_task_by_division_def)

lemma get_attachee_loop_append:
  "get_attachee_loop lower (xs @ ys) n =
     (case get_attachee_loop lower xs n of
        None \<Rightarrow> get_attachee_loop lower ys n
      | Some a \<Rightarrow> Some a)"
  by (induction xs) simp_all

lemma get_attachee_loop_None:
  "get_attachee_loop lower xs n = None \<longleftrightarrow> (\<forall>a \<in> set xs. lower (name a) \<noteq> lower n)"
  by (induction xs) simp_all

lemma attachees_hub_john:
  "attachees hub_john =
     [\<lparr>name = ''John'', division = ''Engineering'', tasks = [''Fix bug''],
       feedback = [(''Fix bug'', [])], scores = [(''Fix bug'', 0)], average_score = 0\<rparr>]"
  by (simp add: hub_john_def add_attachee_def assign_task_by_division_def TechHub_init_def
      get_attachees_by_division_def Attachee_init_def)

lemma divisions_hub_john: "divisions hub_john = divisions TechHub_init"
  by (simp add: hub_john_def divisions_fixed)

lemma attachees_hub_three:
  "attachees hub_three =
     [Attachee_init ''John Smith'' ''Engineering'', Attachee_init ''David Kim'' ''Tech Programs'',
      Attachee_init ''Maria Garcia'' ''Engineering'']"
  by (simp add: hub_three_def add_attachee_def TechHub_init_def)

lemma divisions_hub_three: "divisions hub_three = divisions TechHub_init"
  by (simp add: hub_three_def divisions_fixed)

lemma ascii_lower_examples:
  "ascii_lower ''John'' = ''john''"
  "ascii_lower ''john'' = ''john''"
  "ascii_lower ''JOHN'' = ''john''"
  "ascii_lower ''Jennifer Lee'' = ''jennifer lee''"
  "ascii_lower ''Alex Wong'' = ''alex wong''"
  by code_simp+

text \<open>
  Claim C4. For a division \<open>d\<close> outside the four fixed divisions, \<^verbatim>\<open>add_attachee(n, d)\<close>
  returns the message "Error: d is not a valid division.", which contains \<open>d\<close>, and the
  hub is unchanged. For \<open>d\<close> among the four it appends exactly one new record, with name
  \<open>n\<close> and division \<open>d\<close>, and returns the confirmation.
\<close>

theorem add_attachee_validates_division:
  assumes "divisions h = divisions TechHub_init"
  shows "(d \<notin> {''Engineering'', ''Tech Programs'', ''Radio Support'', ''Hub Support''} \<longrightarrow>
            add_attachee h n d = (''Error: '' @ d @ '' is not a valid division.'', h) \<and>
            sublist d (fst (add_attachee h n d))) \<and>
         (d \<in> {''Engineering'', ''Tech Programs'', ''Radio Support'', ''Hub Support''} \<longrightarrow>
            add_attachee h n d =
              (n @ '' added to '' @ d @ '' division.'',
               h\<lparr>attachees := attachees h @ [Attachee_init n d]\<rparr>) \<and>
            name (Attachee_init n d) = n \<and> division (Attachee_init n d) = d)"
proof -
  have "sublist d (''Error: '' @ d @ '' is not a valid division.'')"
    by (rule sublist_appendI)
  then show ?thesis
    using assms by (auto simp: add_attachee_def TechHub_init_def Attachee_init_def)
qed

theorem add_attachee_validates_division_witness:
  "divisions hub_john = divisions TechHub_init \<and>
   add_attachee hub_john ''Alex Wong'' ''Marketing''
     = (''Error: Marketing is not a valid division.'', hub_john) \<and>
   add_attachee hub_john ''Jennifer Lee'' ''Hub Support''
     = (''Jennifer Lee added to Hub Support division.'',
        hub_john\<lparr>attachees := attachees hub_john @ [Attachee_init ''Jennifer Lee'' ''Hub Support'']\<rparr>)"
  using divisions_hub_john
    add_attachee_validates_division [OF divisions_hub_john, of "''Marketing''" "''Alex Wong''"]
    add_attachee_validates_division [OF divisions_hub_john, of "''Hub Support''" "''Jennifer Lee''"]
  by simp

text \<open>
  Claim C6. \<^verbatim>\<open>get_attachee(n)\<close> scans the attachees in insertion order, comparing the
  lowered names, and returns the first record that matches: the record at the least index
  whose lowered name equals the lowered \<open>n\<close>. When no record matches it returns \<open>None\<close>;
  it never raises.
\<close>

theorem get_attachee_first_match:
  "get_attachee lower h n = find (\<lambda>a. lower (name a) = lower n) (attachees h) \<and>
   (get_attachee lower h n = None \<longleftrightarrow> (\<forall>a \<in> set (attachees h). lower (name a) \<noteq> lower n)) \<and>
   (get_attachee lower h n = Some a \<longleftrightarrow>
      (\<exists>i < length (attachees h). attachees h ! i = a \<and> lower (name a) = lower n \<and>
         (\<forall>j < i. lower (name (attachees h ! j)) \<noteq> lower n)))"
  unfolding get_attachee_def get_attachee_loop_find
  by (auto simp: find_None_iff find_Some_iff)

theorem get_attachee_first_match_witness:
  "get_attachee ascii_lower (snd (add_attachee hub_john ''john'' ''Hub Support'')) ''JOHN''
     = Some \<lparr>name = ''John'', division = ''Engineering'', tasks = [''Fix bug''],
             feedback = [(''Fix bug'', [])], scores = [(''Fix bug'', 0)], average_score = 0\<rparr> \<and>
   map name (attachees hub_john) = [''John''] \<and>
   ascii_lower ''John'' \<noteq> ascii_lower ''Alex Wong'' \<and>
   get_attachee ascii_lower hub_john ''Alex Wong'' = None"
proof -
  have a: "attachees (snd (add_attachee hub_john ''john'' ''Hub Support''))
      = attachees hub_john @ [Attachee_init ''john'' ''Hub Support'']"
    using divisions_hub_john by (simp add: add_attachee_def TechHub_init_def)
  show ?thesis
    using get_attachee_first_match [of ascii_lower hub_john "''Alex Wong''"]
      get_attachee_first_match
        [of ascii_lower "snd (add_attachee hub_john ''john'' ''Hub Support'')" "''JOHN''"]
    by (simp add: a attachees_hub_john ascii_lower_examples Attachee_init_def)
qed

text \<open>
  Claim C8. \<^verbatim>\<open>get_attachees_by_division(d)\<close> returns the empty list when \<open>d\<close> is not one
  of the four divisions, and also when no attachee has division \<open>d\<close>; for a valid \<open>d\<close> it
  returns exactly the attachees of division \<open>d\<close>, in insertion order.
\<close>

theorem get_attachees_by_division_filter:
  assumes "divisions h = divisions TechHub_init"
  shows "(d \<notin> {''Engineering'', ''Tech Programs'', ''Radio Support'', ''Hub Support''} \<longrightarrow>
            get_attachees_by_division h d = []) \<and>
         (d \<in> {''Engineering'', ''Tech Programs'', ''Radio Support'', ''Hub Support''} \<longrightarrow>
            get_attachees_by_division h d = [a \<leftarrow> attachees h. division a = d]) \<and>
         ((\<forall>a \<in> set (attachees h). division a \<noteq> d) \<longrightarrow> get_attachees_by_division h d = [])"
  using assms by (auto simp: get_attachees_by_division_def TechHub_init_def filter_empty_conv)

theorem get_attachees_by_division_filter_witness:
  "divisions hub_three = divisions TechHub_init \<and>
   get_attachees_by_division hub_three ''Engineering''
     = [Attachee_init ''John Smith'' ''Engineering'', Attachee_init ''Maria Garcia'' ''Engineering''] \<and>
   get_attachees_by_division hub_three ''Marketing'' = [] \<and>
   map division (attachees hub_three) = [''Engineering'', ''Tech Programs'', ''Engineering''] \<and>
   get_attachees_by_division hub_three ''Hub Support'' = []"
  using divisions_hub_three
    get_attachees_by_division_filter [OF divisions_hub_three, of "''Engineering''"]
    get_attachees_by_division_filter [OF divisions_hub_three, of "''Marketing''"]
    get_attachees_by_division_filter [OF divisions_hub_three, of "''Hub Support''"]
  by (simp add: attachees_hub_three Attachee_init_def)

text \<open>
  Claim C7. \<^verbatim>\<open>assign_task_by_division(d, t)\<close> does exactly one of three things. For a
  valid \<open>d\<close> with at least one attachee it applies \<^verbatim>\<open>assign_task(t)\<close> to every attachee
  of \<open>d\<close>, in insertion order, leaves the others as they are, and returns the bulk
  confirmation. For a valid \<open>d\<close> with no attachee it returns the no-attachees message and
  changes nothing. For an invalid \<open>d\<close> it returns the division-error message and changes
  nothing. The three messages differ from each other.
\<close>

theorem assign_task_by_division_cases:
  assumes "divisions h = divisions TechHub_init"
  shows "(d \<in> {''Engineering'', ''Tech Programs'', ''Radio Support'', ''Hub Support''} \<and>
          [a \<leftarrow> attachees h. division a = d] \<noteq> [] \<longrightarrow>
            assign_task_by_division h d t =
              (''Task '' @ [apostrophe] @ t @ [apostrophe] @ '' assigned to all attachees in ''
                 @ d @ '' division.'',
               h\<lparr>attachees :=
                    map (\<lambda>a. if division a = d then snd (assign_task a t) else a)
                      (attachees h)\<rparr>) \<and>
            get_attachees_by_division (snd (assign_task_by_division h d t)) d
              = map (\<lambda>a. snd (assign_task a t)) (get_attachees_by_division h d) \<and>
            [a \<leftarrow> attachees (snd (assign_task_by_division h d t)). division a \<noteq> d]
              = [a \<leftarrow> attachees h. division a \<noteq> d]) \<and>
         (d \<in> {''Engineering'', ''Tech Programs'', ''Radio Support'', ''Hub Support''} \<and>
          [a \<leftarrow> attachees h. division a = d] = [] \<longrightarrow>
            assign_task_by_division h d t = (''No attachees found in '' @ d @ '' division.'', h)) \<and>
         (d \<notin> {''Engineering'', ''Tech Programs'', ''Radio Support'', ''Hub Support''} \<longrightarrow>
            assign_task_by_division h d t = (''Error: '' @ d @ '' is not a valid division.'', h)) \<and>
         ''Task '' @ [apostrophe] @ t @ [apostrophe] @ '' assigned to all attachees in ''
            @ d @ '' division.'' \<noteq> ''No attachees found in '' @ d @ '' division.'' \<and>
         ''Task '' @ [apostrophe] @ t @ [apostrophe] @ '' assigned to all attachees in ''
            @ d @ '' division.'' \<noteq> ''Error: '' @ d @ '' is not a valid division.'' \<and>
         ''No attachees found in '' @ d @ '' division.''
            \<noteq> ''Error: '' @ d @ '' is not a valid division.''"
proof -
  have v: "d \<in> set (divisions h) \<longleftrightarrow>
      d \<in> {''Engineering'', ''Tech Programs'', ''Radio Support'', ''Hub Support''}"
    using assms by (auto simp: TechHub_init_def)
  show ?thesis
    by (simp add: assign_task_by_division_def get_attachees_by_division_def v
        filter_assign_task_loop filter_other_assign_task_loop assign_task_loop_map [symmetric]
        del: snd_assign_task)
qed

theorem assign_task_by_division_cases_witness:
  "divisions hub_three = divisions TechHub_init \<and>
   assign_task_by_division hub_three ''Engineering'' ''Complete code review''
     = (''Task '' @ [apostrophe] @ ''Complete code review'' @ [apostrophe]
          @ '' assigned to all attachees in Engineering division.'',
        hub_three\<lparr>attachees :=
          [snd (assign_task (Attachee_init ''John Smith'' ''Engineering'') ''Complete code review''),
           Attachee_init ''David Kim'' ''Tech Programs'',
           snd (assign_task (Attachee_init ''Maria Garcia'' ''Engineering'')
                  ''Complete code review'')]\<rparr>) \<and>
   assign_task_by_division hub_three ''Hub Support'' ''Update docs''
     = (''No attachees found in Hub Support division.'', hub_three) \<and>
   assign_task_by_division hub_three ''Marketing'' ''Update docs''
     = (''Error: Marketing is not a valid division.'', hub_three)"
  using divisions_hub_three
    assign_task_by_division_cases
      [OF divisions_hub_three, of "''Engineering''" "''Complete code review''"]
    assign_task_by_division_cases [OF divisions_hub_three, of "''Hub Support''" "''Update docs''"]
    assign_task_by_division_cases [OF divisions_hub_three, of "''Marketing''" "''Update docs''"]
  by (simp add: attachees_hub_three Attachee_init_def del: snd_assign_task)

text \<open>
  Claim C5, as the code has it. For a valid division \<open>d\<close> and a name \<open>n\<close> that no attachee
  of the hub already has (comparing lowered names), \<^verbatim>\<open>add_attachee(n, d)\<close> followed by
  \<^verbatim>\<open>get_attachee(n)\<close> returns the new record, whose division is \<open>d\<close> and whose tasks
  list is empty.
\<close>

theorem add_then_get_attachee:
  assumes "divisions h = divisions TechHub_init"
    and "d \<in> {''Engineering'', ''Tech Programs'', ''Radio Support'', ''Hub Support''}"
    and "\<forall>a \<in> set (attachees h). lower (name a) \<noteq> lower n"
  shows "get_attachee lower (snd (add_attachee h n d)) n = Some (Attachee_init n d) \<and>
         division (Attachee_init n d) = d \<and> tasks (Attachee_init n d) = []"
proof -
  have v: "d \<in> set (divisions h)"
    using assms(1,2) by (auto simp: TechHub_init_def)
  have "get_attachee_loop lower (attachees h) n = None"
    using assms(3) by (simp add: get_attachee_loop_None)
  then show ?thesis
    using v
    by (simp add: get_attachee_def add_attachee_def get_attachee_loop_append Attachee_init_def)
qed

theorem add_then_get_attachee_witness:
  "divisions hub_john = divisions TechHub_init \<and>
   map name (attachees hub_john) = [''John''] \<and>
   ascii_lower ''John'' \<noteq> ascii_lower ''Jennifer Lee'' \<and>
   get_attachee ascii_lower (snd (add_attachee hub_john ''Jennifer Lee'' ''Hub Support''))
     ''Jennifer Lee''
     = Some \<lparr>name = ''Jennifer Lee'', division = ''Hub Support'', tasks = [], feedback = [],
             scores = [], average_score = 0\<rparr>"
proof -
  have u: "\<forall>a \<in> set (attachees hub_john). ascii_lower (name a) \<noteq> ascii_lower ''Jennifer Lee''"
    by (simp add: attachees_hub_john ascii_lower_examples)
  show ?thesis
    using divisions_hub_john
      add_then_get_attachee [OF divisions_hub_john _ u, of "''Hub Support''"]
    by (simp add: Attachee_init_def attachees_hub_john ascii_lower_examples)
qed

text \<open>
  The claim fails when the hub already has an attachee of that name: \<^verbatim>\<open>add_attachee\<close>
  does not check the name, and \<^verbatim>\<open>get_attachee\<close> returns the first match. With John of
  Engineering, who has a task, in the hub, adding a second John to Hub Support and looking
  John up returns the first one.
\<close>

theorem add_then_get_attachee_counterexample:
  "''Hub Support'' \<in> set (divisions hub_john) \<and>
   get_attachee ascii_lower (snd (add_attachee hub_john ''John'' ''Hub Support'')) ''John''
     = Some \<lparr>name = ''John'', division = ''Engineering'', tasks = [''Fix bug''],
             feedback = [(''Fix bug'', [])], scores = [(''Fix bug'', 0)], average_score = 0\<rparr> \<and>
   map_option division
     (get_attachee ascii_lower (snd (add_attachee hub_john ''John'' ''Hub Support'')) ''John'')
     \<noteq> Some ''Hub Support'' \<and>
   map_option tasks
     (get_attachee ascii_lower (snd (add_attachee hub_john ''John'' ''Hub Support'')) ''John'')
     \<noteq> Some []"
  by (simp add: hub_john_def add_attachee_def assign_task_by_division_def TechHub_init_def
      get_attachees_by_division_def Attachee_init_def get_attachee_def)

section \<open>Error messages\<close>

text \<open>
  Claim C9, as the code has it. The message for an unassigned task (from \<^verbatim>\<open>add_feedback\<close>
  and \<^verbatim>\<open>add_score\<close>) contains the task and the name of the record, and the message for
  an invalid division (from \<^verbatim>\<open>add_attachee\<close>, \<^verbatim>\<open>assign_task_by_division\<close> and
  \<^verbatim>\<open>display_division_performance\<close>) contains the division. The message for a score out
  of range is the fixed text "Error: Score must be between 0 and 10.", and a name that is
  not found gives \<open>None\<close>, not a message.
\<close>

theorem error_messages:
  "(t \<notin> set (tasks r) \<longrightarrow>
      fst (add_feedback r t fb)
        = ''Error: Task '' @ [apostrophe] @ t @ [apostrophe] @ '' not assigned to '' @ name r @ ''.'' \<and>
      fst (add_score sn r t s)
        = ''Error: Task '' @ [apostrophe] @ t @ [apostrophe] @ '' not assigned to '' @ name r @ ''.'' \<and>
      sublist t (fst (add_feedback r t fb)) \<and> sublist (name r) (fst (add_feedback r t fb)) \<and>
      sublist t (fst (add_score sn r t s)) \<and> sublist (name r) (fst (add_score sn r t s))) \<and>
   (t \<in> set (tasks r) \<and> \<not> (0 \<le> s \<and> s \<le> 10) \<longrightarrow>
      fst (add_score sn r t s) = ''Error: Score must be between 0 and 10.'') \<and>
   (d \<notin> set (divisions h) \<longrightarrow>
      fst (add_attachee h n d) = ''Error: '' @ d @ '' is not a valid division.'' \<and>
      fst (assign_task_by_division h d t) = ''Error: '' @ d @ '' is not a valid division.'' \<and>
      display_division_performance sn f1 h d = Inr (''Error: '' @ d @ '' is not a valid division.'') \<and>
      sublist d (''Error: '' @ d @ '' is not a valid division.'')) \<and>
   ((\<forall>a \<in> set (attachees h). lower (name a) \<noteq> lower n) \<longrightarrow> get_attachee lower h n = None)"
proof -
  have 1: "sublist t (''Error: Task '' @ [apostrophe] @ t @ [apostrophe] @ '' not assigned to '' @ name r @ ''.'')"
    using sublist_appendI [of t "''Error: Task '' @ [apostrophe]" "[apostrophe] @ '' not assigned to '' @ name r @ ''.''"]
    by simp
  have 2: "sublist (name r) (''Error: Task '' @ [apostrophe] @ t @ [apostrophe] @ '' not assigned to '' @ name r @ ''.'')"
    using sublist_appendI [of "name r" "''Error: Task '' @ [apostrophe] @ t @ [apostrophe] @ '' not assigned to ''" "''.''"]
    by simp
  have 3: "sublist d (''Error: '' @ d @ '' is not a valid division.'')"
    by (rule sublist_appendI)
  show ?thesis
    using 1 2 3
    by (simp add: add_feedback_def add_score_def add_attachee_def assign_task_by_division_def
        display_division_performance_def get_attachee_def get_attachee_loop_None)
qed

theorem error_messages_witness:
  "''Create marketing materials'' \<notin> set (tasks john) \<and>
   fst (add_feedback john ''Create marketing materials'' ''Not applicable.'')
     = ''Error: Task '' @ [apostrophe] @ ''Create marketing materials'' @ [apostrophe]
         @ '' not assigned to John Smith.'' \<and>
   ''Fix bug'' \<in> set (tasks john) \<and> \<not> (0 \<le> (12::rat) \<and> (12::rat) \<le> 10) \<and>
   fst (add_score str_int john ''Fix bug'' 12) = ''Error: Score must be between 0 and 10.'' \<and>
   ''Marketing'' \<notin> set (divisions hub_john) \<and>
   fst (add_attachee hub_john ''Alex Wong'' ''Marketing'')
     = ''Error: Marketing is not a valid division.'' \<and>
   map name (attachees hub_john) = [''John''] \<and>
   ascii_lower ''John'' \<noteq> ascii_lower ''Alex Wong'' \<and>
   get_attachee ascii_lower hub_john ''Alex Wong'' = None"
proof -
  have j: "tasks john = [''Fix bug'']" "name john = ''John Smith''"
    by (simp_all add: john_def Attachee_init_def)
  have m: "''Marketing'' \<notin> set (divisions hub_john)"
    by (simp add: divisions_hub_john TechHub_init_def)
  have u: "\<forall>a \<in> set (attachees hub_john). ascii_lower (name a) \<noteq> ascii_lower ''Alex Wong''"
    by (simp add: attachees_hub_john ascii_lower_examples)
  show ?thesis
    using m u
      error_messages [of "''Create marketing materials''" john "''Not applicable.''" str_int 0
        "''Marketing''" hub_john "''Alex Wong''" str_int ascii_lower]
      error_messages [of "''Fix bug''" john "''Good''" str_int 12
        "''Marketing''" hub_john "''Alex Wong''" str_int ascii_lower]
    by (simp add: j attachees_hub_john ascii_lower_examples)
qed

text \<open>
  The claim fails for a score out of range and for a name not found: scoring John Smith's
  "Fix bug" with 12 returns a message that contains neither the task, nor the name, nor
  the score, and looking up a name that is not in the hub returns \<open>None\<close>.
\<close>

theorem error_messages_counterexample:
  "''Fix bug'' \<in> set (tasks john) \<and> name john = ''John Smith'' \<and>
   fst (add_score str_int john ''Fix bug'' 12) = ''Error: Score must be between 0 and 10.'' \<and>
   \<not> sublist ''Fix bug'' (fst (add_score str_int john ''Fix bug'' 12)) \<and>
   \<not> sublist ''John Smith'' (fst (add_score str_int john ''Fix bug'' 12)) \<and>
   str_int 12 = ''12'' \<and>
   \<not> sublist ''12'' (fst (add_score str_int john ''Fix bug'' 12)) \<and>
   get_attachee ascii_lower hub_john ''Alex Wong'' = None"
proof -
  have j: "tasks john = [''Fix bug'']" "name john = ''John Smith''"
    by (simp_all add: john_def Attachee_init_def)
  have m: "fst (add_score str_int john ''Fix bug'' 12) = ''Error: Score must be between 0 and 10.''"
    by (simp add: add_score_def j)
  have s: "\<not> sublist ''Fix bug'' ''Error: Score must be between 0 and 10.''"
    "\<not> sublist ''John Smith'' ''Error: Score must be between 0 and 10.''"
    "\<not> sublist ''12'' ''Error: Score must be between 0 and 10.''"
    by code_simp+
  have n: "str_int 12 = ''12''"
    by (simp add: str_int_def)
  have g: "get_attachee ascii_lower hub_john ''Alex Wong'' = None"
    by (simp add: get_attachee_def attachees_hub_john ascii_lower_examples)
  show ?thesis
    by (simp add: j m s n g)
qed

end
